theory Spec2Isabelle
  imports Complex_Main
begin

section \<open>Reinforcement-learning agents of \<^verbatim>\<open>reinforcement/agent.py\<close>\<close>

text \<open>
  A shallow embedding of \<^verbatim>\<open>src/reinforcement/agent.py\<close>. Conventions:
  \<^item> NumPy floating-point arrays are lists of reals (\<open>vec\<close>); the arithmetic is the exact
    arithmetic of the reals, and the places where NumPy divides are written out with
    \<open>np_div\<close>, whose result says when the quotient is not a finite number;
  \<^item> a Python exception is a value of \<open>error\<close>; a method that mutates \<^verbatim>\<open>self\<close>
    returns its outcome together with the object as the exception or the return leaves it;
  \<^item> every random draw of the source (\<^verbatim>\<open>np.random.uniform\<close>, \<^verbatim>\<open>choice\<close>,
    \<^verbatim>\<open>randint\<close>, \<^verbatim>\<open>randn\<close>, the shuffle of the replay buffer) is an explicit
    argument;
  \<^item> the network is an external collaborator: its state is a type parameter \<open>'n\<close> and its
    four methods are the fields of a record of functions.
\<close>

subsection \<open>Values and exceptions\<close>

type_synonym vec = "real list"

datatype error =
    KeyError string
  | AttributeError string
  | ValueError
  | IndexError
  | TypeError

text \<open>The outcome of a NumPy floating-point division.\<close>

datatype npfloat = Finite real | PosInf | NegInf | NaN

definition np_div :: "real \<Rightarrow> real \<Rightarrow> npfloat" where
  "np_div x y =
     (if y \<noteq> 0 then Finite (x / y)
      else if x = 0 then NaN
      else if 0 < x then PosInf else NegInf)"

subsection \<open>The NumPy operations the agents use\<close>

text \<open>\<^verbatim>\<open>np.array(xs)\<close> followed by arithmetic: a \<^verbatim>\<open>None\<close> entry raises TypeError.\<close>

definition np_array :: "real option list \<Rightarrow> error + vec" where
  "np_array xs = (if list_ex (\<lambda>x. x = None) xs then Inl TypeError else Inr (map the xs))"

text \<open>\<^verbatim>\<open>np.stack(arrays, axis=0)\<close>: at least one array, all of one shape.\<close>

definition np_stack :: "vec list \<Rightarrow> error + vec list" where
  "np_stack arrays =
     (case arrays of
        [] \<Rightarrow> Inl ValueError
      | a # as \<Rightarrow> if list_all (\<lambda>b. length b = length a) as then Inr arrays else Inl ValueError)"

text \<open>\<^verbatim>\<open>a.max()\<close> and \<^verbatim>\<open>np.argmax(a)\<close> (the first index of the maximum) of a
  one-dimensional array; both raise ValueError on an empty one.\<close>

fun np_max :: "vec \<Rightarrow> error + real" where
  "np_max [] = Inl ValueError"
| "np_max (x # xs) = Inr (fold max xs x)"

fun np_argmax :: "vec \<Rightarrow> error + nat" where
  "np_argmax [] = Inl ValueError"
| "np_argmax (x # xs) = Inr (length (takeWhile (\<lambda>y. y \<noteq> fold max xs x) (x # xs)))"

text \<open>\<^verbatim>\<open>Y.max(axis=1)\<close> of a stacked two-dimensional array.\<close>

fun np_max_axis1 :: "vec list \<Rightarrow> error + vec" where
  "np_max_axis1 [] = Inr []"
| "np_max_axis1 (row # rows) =
     (case np_max row of
        Inl e \<Rightarrow> Inl e
      | Inr m \<Rightarrow> (case np_max_axis1 rows of Inl e \<Rightarrow> Inl e | Inr ms \<Rightarrow> Inr (m # ms)))"

text \<open>Broadcasting of two one-dimensional shapes: equal lengths, or one of them 1.\<close>

definition np_broadcast2 :: "(real \<Rightarrow> real \<Rightarrow> real) \<Rightarrow> vec \<Rightarrow> vec \<Rightarrow> error + vec" where
  "np_broadcast2 f a b =
     (if length a = length b then Inr (map2 f a b)
      else if length a = 1 then Inr (map (\<lambda>y. f (hd a) y) b)
      else if length b = 1 then Inr (map (\<lambda>x. f x (hd b)) a)
      else Inl ValueError)"

definition np_sub :: "vec \<Rightarrow> vec \<Rightarrow> error + vec" where
  "np_sub a b = np_broadcast2 (\<lambda>x y. x - y) a b"

definition np_add :: "vec \<Rightarrow> vec \<Rightarrow> error + vec" where
  "np_add a b = np_broadcast2 (\<lambda>x y. x + y) a b"

text \<open>\<^verbatim>\<open>a += b\<close> in place: \<open>b\<close> must broadcast to the shape of \<open>a\<close>.\<close>

definition np_iadd :: "vec \<Rightarrow> vec \<Rightarrow> error + vec" where
  "np_iadd a b =
     (if length b = length a then Inr (map2 (\<lambda>x y. x + y) a b)
      else if length b = 1 then Inr (map (\<lambda>x. x + hd b) a)
      else Inl ValueError)"

text \<open>\<^verbatim>\<open>np.linalg.norm(d)\<close> of a one-dimensional array: the 2-norm.\<close>

definition np_linalg_norm :: "vec \<Rightarrow> real" where
  "np_linalg_norm d = sqrt (sum_list (map (\<lambda>x. x * x) d))"

text \<open>\<^verbatim>\<open>R.mean()\<close> and \<^verbatim>\<open>R.std()\<close> (the population standard deviation).\<close>

definition np_mean :: "vec \<Rightarrow> npfloat" where
  "np_mean xs = np_div (sum_list xs) (real (length xs))"

definition np_std :: "vec \<Rightarrow> npfloat" where
  "np_std xs =
     (case np_mean xs of
        Finite m \<Rightarrow>
          (case np_mean (map (\<lambda>x. (x - m) * (x - m)) xs) of
             Finite v \<Rightarrow> Finite (sqrt v)
           | other \<Rightarrow> other)
      | other \<Rightarrow> other)"

text \<open>
  \<^verbatim>\<open>Y[:, ix] = v\<close> with a tuple \<open>ix\<close> of column indices: the value is broadcast to the
  shape (rows of \<open>Y\<close>, length of \<open>ix\<close>), so that in every row column \<open>ix[j]\<close> receives
  \<open>v[j]\<close>; where an index repeats, the last assignment stays.
\<close>

definition np_setcols :: "vec list \<Rightarrow> nat list \<Rightarrow> vec \<Rightarrow> error + vec list" where
  "np_setcols Y ix v =
     (if length v \<noteq> length ix \<and> length v \<noteq> 1 then Inl ValueError
      else if list_ex (\<lambda>i. list_ex (\<lambda>row. length row \<le> i) Y) ix then Inl IndexError
      else
        (let vs = (if length v = length ix then v else replicate (length ix) (hd v))
         in Inr (map (\<lambda>row. fold (\<lambda>(i, x) r. r[i := x]) (zip ix vs) row) Y)))"

text \<open>\<^verbatim>\<open>np.random.randint(0, n)\<close>, from a raw draw \<open>k\<close>: ValueError when \<open>n = 0\<close>.\<close>

definition np_random_randint :: "nat \<Rightarrow> nat \<Rightarrow> error + nat" where
  "np_random_randint k n = (if n = 0 then Inl ValueError else Inr (k mod n))"

text \<open>
  \<^verbatim>\<open>np.random.choice(a, p=p)\<close>, from the uniform variate \<open>u\<close> it draws: the inverse of
  the cumulative distribution (\<^verbatim>\<open>cdf.searchsorted(u, side='right')\<close>).
\<close>

fun cumsum :: "real \<Rightarrow> vec \<Rightarrow> vec" where
  "cumsum acc [] = []"
| "cumsum acc (x # xs) = (acc + x) # cumsum (acc + x) xs"

definition np_random_choice :: "nat list \<Rightarrow> vec \<Rightarrow> real \<Rightarrow> error + nat" where
  "np_random_choice a p u =
     (if a = [] then Inl ValueError
      else if length p \<noteq> length a then Inl ValueError
      else if list_ex (\<lambda>x. x < 0) p then Inl ValueError
      else if sum_list p \<noteq> 1 then Inl ValueError
      else
        (let idx = length (takeWhile (\<lambda>c. c \<le> u) (cumsum 0 p))
         in if idx < length a then Inr (a ! idx) else Inl IndexError))"

text \<open>\<^verbatim>\<open>np.random.randn(n)\<close>: the first \<open>n\<close> draws of a stream of standard normal variates.\<close>

definition np_random_randn :: "(nat \<Rightarrow> real) \<Rightarrow> nat \<Rightarrow> vec" where
  "np_random_randn z n = map z [0..<n]"

subsection \<open>AgentConfig\<close>

text \<open>
  The configuration object is its instance dictionary \<^verbatim>\<open>__dict__\<close>: a map from
  attribute names to values. \<^verbatim>\<open>AgentConfig.__init__\<close> stores its five parameters
  under the short names.
\<close>

type_synonym 'v AgentConfig = "string \<rightharpoonup> 'v"

definition AgentConfig_init :: "'v \<Rightarrow> 'v \<Rightarrow> 'v \<Rightarrow> 'v \<Rightarrow> 'v \<Rightarrow> 'v AgentConfig" where
  "AgentConfig_init training_batch_size discount_factor knowledge_transfer_rate
       epsilon_greedy_rate replay_memory_size =
     [''bsize'' \<mapsto> training_batch_size,
      ''gamma'' \<mapsto> discount_factor,
      ''tau'' \<mapsto> knowledge_transfer_rate,
      ''epsilon'' \<mapsto> epsilon_greedy_rate,
      ''xpsize'' \<mapsto> replay_memory_size]"

text \<open>The dictionary literal of \<^verbatim>\<open>AgentConfig.alias\<close>, in the order of the source.\<close>

definition alias_table :: "(string \<times> string) list" where
  "alias_table =
     [(''training_batch_size'', ''bsize''),
      (''discount_factor'', ''gamma''),
      (''knowledge_transfer_rate'', ''tau''),
      (''epsilon_greedy_rate'', ''epsilon''),
      (''replay_memory_size'', ''xpsize''),
      (''bsize'', ''bsize''), (''gamma'', ''gamma''),
      (''tau'', ''tau''), (''xpsize'', ''xpsize''),
      (''epsilon'', ''epsilon'')]"

definition alias_item :: "string \<Rightarrow> error + string" where
  "alias_item item = (case map_of alias_table item of None \<Rightarrow> Inl (KeyError item) | Some k \<Rightarrow> Inr k)"

text \<open>\<^verbatim>\<open>__getitem__\<close>: \<^verbatim>\<open>self.__dict__[self.alias(item)]\<close>.\<close>

definition getitem :: "'v AgentConfig \<Rightarrow> string \<Rightarrow> error + 'v" where
  "getitem self item =
     (case alias_item item of
        Inl e \<Rightarrow> Inl e
      | Inr k \<Rightarrow> (case self k of None \<Rightarrow> Inl (KeyError k) | Some v \<Rightarrow> Inr v))"

text \<open>\<^verbatim>\<open>__setitem__\<close>: \<^verbatim>\<open>self.__dict__[self.alias(key)] = value\<close>. The result is the
  exception, if any, and the configuration afterwards.\<close>

definition setitem :: "'v AgentConfig \<Rightarrow> string \<Rightarrow> 'v \<Rightarrow> error option \<times> 'v AgentConfig" where
  "setitem self key val =
     (case alias_item key of
        Inl e \<Rightarrow> (Some e, self)
      | Inr k \<Rightarrow> (None, self(k \<mapsto> val)))"

text \<open>A sequence of key-based mutations; a failed one leaves the object as it was.\<close>

fun setitems :: "'v AgentConfig \<Rightarrow> (string \<times> 'v) list \<Rightarrow> 'v AgentConfig" where
  "setitems self [] = self"
| "setitems self ((key, val) # rest) = setitems (snd (setitem self key val)) rest"

text \<open>An attribute read \<^verbatim>\<open>cfg.name\<close>.\<close>

definition attr :: "'v AgentConfig \<Rightarrow> string \<Rightarrow> error + 'v" where
  "attr self name = (case self name of None \<Rightarrow> Inl (AttributeError name) | Some v \<Rightarrow> Inr v)"

text \<open>
  \<^verbatim>\<open>AgentConfig(**kw)\<close>: a keyword that is not a parameter raises TypeError; a parameter
  that is not passed takes its default.
\<close>

definition AgentConfig_params :: "string list" where
  "AgentConfig_params =
     [''training_batch_size'', ''discount_factor'', ''knowledge_transfer_rate'',
      ''epsilon_greedy_rate'', ''replay_memory_size'']"

definition kwarg :: "(string \<times> real) list \<Rightarrow> string \<Rightarrow> real \<Rightarrow> real" where
  "kwarg kw name dflt = (case map_of kw name of None \<Rightarrow> dflt | Some v \<Rightarrow> v)"

definition AgentConfig_kw :: "(string \<times> real) list \<Rightarrow> error + real AgentConfig" where
  "AgentConfig_kw kw =
     (if list_ex (\<lambda>k. k \<notin> set AgentConfig_params) (map fst kw) then Inl TypeError
      else Inr (AgentConfig_init
             (kwarg kw ''training_batch_size'' 300)
             (kwarg kw ''discount_factor'' 0.99)
             (kwarg kw ''knowledge_transfer_rate'' 0.1)
             (kwarg kw ''epsilon_greedy_rate'' 0.1)
             (kwarg kw ''replay_memory_size'' 9000)))"

subsection \<open>The collaborators that are not in this file\<close>

text \<open>
  Modelled from the spec: \<^verbatim>\<open>discount_rewards\<close> of \<^verbatim>\<open>util/rl_util.py\<close>, which is
  imported and not part of the source at hand. The discounted return is
  \<open>G\<^sub>t = r\<^sub>t + \<gamma> \<sqdot> G\<^sub>t\<^sub>+\<^sub>1\<close>, with \<open>G\<^sub>T\<^sub>-\<^sub>1 = r\<^sub>T\<^sub>-\<^sub>1\<close> for the last step.
\<close>

fun discount_rewards :: "vec \<Rightarrow> real \<Rightarrow> vec" where
  "discount_rewards [] gamma = []"
| "discount_rewards [r] gamma = [r]"
| "discount_rewards (r # r' # rs) gamma =
     (r + gamma * hd (discount_rewards (r' # rs) gamma)) # discount_rewards (r' # rs) gamma"

text \<open>
  Modelled from the spec: the class \<^verbatim>\<open>Experience\<close> of \<^verbatim>\<open>util/rl_util.py\<close>, which is
  imported and not part of the source at hand. The buffer is an ordered sequence of
  (input, target) pairs bounded by its capacity; \<^verbatim>\<open>remember\<close> appends the pairs and
  discards the oldest excess entries; \<^verbatim>\<open>replay(n)\<close> returns a random sample of
  \<open>min n size\<close> pairs, drawn without replacement, and does not change the buffer. The
  random source of \<^verbatim>\<open>replay\<close> is a list of raw draws, one for each pair drawn.
\<close>

record Experience =
  limit :: nat
  memory :: "(vec \<times> vec) list"

text \<open>Modelled from the spec: the constructor \<^verbatim>\<open>Experience(limit)\<close>, an empty
  buffer of the given capacity.\<close>

definition Experience_init :: "nat \<Rightarrow> Experience" where
  "Experience_init capacity = \<lparr>limit = capacity, memory = []\<rparr>"

text \<open>Modelled from the spec: \<^verbatim>\<open>Experience.remember(X, Y)\<close> appends the paired
  entries; if the size then exceeds the capacity, the oldest excess entries are
  discarded.\<close>

definition remember :: "Experience \<Rightarrow> vec list \<Rightarrow> vec list \<Rightarrow> Experience" where
  "remember self X Y =
     (let m = memory self @ zip X Y
      in self\<lparr>memory := drop (length m - limit self) m\<rparr>)"

text \<open>Modelled from the spec: the sampling of \<^verbatim>\<open>Experience.replay\<close>, \<open>n\<close> entries
  of the pool or all of them if there are fewer, each drawn at the position the next raw
  draw selects among the entries not yet drawn.\<close>

fun draw_without_replacement :: "nat list \<Rightarrow> 'a list \<Rightarrow> nat \<Rightarrow> 'a list" where
  "draw_without_replacement rs pool 0 = []"
| "draw_without_replacement rs [] (Suc n) = []"
| "draw_without_replacement rs (x # xs) (Suc n) =
     (let i = (case rs of [] \<Rightarrow> 0 | r # _ \<Rightarrow> r mod length (x # xs))
      in ((x # xs) ! i) #
         draw_without_replacement (tl rs) (take i (x # xs) @ drop (Suc i) (x # xs)) n)"

text \<open>Modelled from the spec: \<^verbatim>\<open>Experience.replay(n)\<close> returns the inputs and the
  targets of the sample; on an empty buffer both are empty.\<close>

definition replay :: "Experience \<Rightarrow> nat \<Rightarrow> nat list \<Rightarrow> vec list \<times> vec list" where
  "replay self n rs =
     (let batch = draw_without_replacement rs (memory self) n
      in (map fst batch, map snd batch))"

text \<open>
  The network, by the contract the agents use: \<^verbatim>\<open>predict(state[None, ...])[0]\<close> maps a
  state to one output vector and changes nothing; \<^verbatim>\<open>train_on_batch(X, Y)\<close> returns the
  cost and changes the network; \<^verbatim>\<open>get_weights\<close> returns the flattened weights;
  \<^verbatim>\<open>set_weights\<close> overwrites them.
\<close>

record 'n network_methods =
  predict :: "'n \<Rightarrow> vec \<Rightarrow> vec"
  train_on_batch :: "'n \<Rightarrow> vec list \<Rightarrow> vec list \<Rightarrow> real \<times> 'n"
  get_weights :: "'n \<Rightarrow> vec"
  set_weights :: "'n \<Rightarrow> vec \<Rightarrow> 'n"

subsection \<open>AgentBase\<close>

text \<open>
  The attribute \<^verbatim>\<open>rewards\<close> is a list in \<^verbatim>\<open>AgentBase\<close>, \<^verbatim>\<open>PG\<close> and \<^verbatim>\<open>DQN\<close>
  and a number in \<^verbatim>\<open>HillClimbing\<close>: its type is a parameter of the record. A step
  reward can be \<^verbatim>\<open>None\<close>.
\<close>

record ('n, 'r) AgentBase =
  rewards :: 'r
  net :: 'n
  shadow_net :: vec
  xp :: Experience
  cfg :: "real AgentConfig"

text \<open>\<^verbatim>\<open>AgentBase.__init__(network, agentconfig, **kw)\<close>. The shadow weights are the
  weights the network returns at construction (a vector of the shape of the flattened
  weights). The sizes of the configuration are numbers; the buffer takes the capacity as
  a natural number.\<close>

definition AgentBase_init ::
  "'n network_methods \<Rightarrow> 'n \<Rightarrow> real AgentConfig option \<Rightarrow> (string \<times> real) list
     \<Rightarrow> error + ('n, real option list) AgentBase" where
  "AgentBase_init M network agentconfig kw =
     (case (case agentconfig of None \<Rightarrow> AgentConfig_kw kw | Some c \<Rightarrow> Inr c) of
        Inl e \<Rightarrow> Inl e
      | Inr agentconfig' \<Rightarrow>
          (case attr agentconfig' ''xpsize'' of
             Inl e \<Rightarrow> Inl e
           | Inr xpsize \<Rightarrow>
               Inr \<lparr>rewards = [], net = network, shadow_net = get_weights M network,
                    xp = Experience_init (nat \<lfloor>xpsize\<rfloor>), cfg = agentconfig'\<rparr>))"

text \<open>\<^verbatim>\<open>push_weights\<close>: the drift is computed from the shadow weights as they are on
  entry; the two in-place updates follow.\<close>

definition push_weights ::
  "'n network_methods \<Rightarrow> ('n, 'r, 'z) AgentBase_scheme
     \<Rightarrow> (error + npfloat) \<times> ('n, 'r, 'z) AgentBase_scheme" where
  "push_weights M self =
     (let W = get_weights M (net self) in
      case np_sub (shadow_net self) W of
        Inl e \<Rightarrow> (Inl e, self)
      | Inr diff \<Rightarrow>
          (let D = np_linalg_norm diff in
           case attr (cfg self) ''tau'' of
             Inl e \<Rightarrow> (Inl e, self)
           | Inr tau \<Rightarrow>
               (let self1 = self\<lparr>shadow_net := map (\<lambda>x. x * (1 - tau)) (shadow_net self)\<rparr> in
                case np_iadd (shadow_net self1)
                       (map (\<lambda>w. tau * w) (get_weights M (net self1))) of
                  Inl e \<Rightarrow> (Inl e, self1)
                | Inr s \<Rightarrow> (Inr (np_div D (real (length W))), self1\<lparr>shadow_net := s\<rparr>))))"

text \<open>\<^verbatim>\<open>learn_batch\<close>: the result \<open>None\<close> is Python's \<^verbatim>\<open>None\<close> of the bare
  \<^verbatim>\<open>return\<close>.\<close>

definition learn_batch ::
  "'n network_methods \<Rightarrow> nat list \<Rightarrow> ('n, 'r, 'z) AgentBase_scheme
     \<Rightarrow> (error + (real \<times> npfloat) option) \<times> ('n, 'r, 'z) AgentBase_scheme" where
  "learn_batch M rs self =
     (case attr (cfg self) ''bsize'' of
        Inl e \<Rightarrow> (Inl e, self)
      | Inr bsize \<Rightarrow>
          (case replay (xp self) (nat \<lfloor>bsize\<rfloor>) rs of
             (X, Y) \<Rightarrow>
               if length X = 0 then (Inr None, self)
               else
                 (case train_on_batch M (net self) X Y of
                    (cost, net') \<Rightarrow>
                      (case push_weights M (self\<lparr>net := net'\<rparr>) of
                         (Inl e, self') \<Rightarrow> (Inl e, self')
                       | (Inr D, self') \<Rightarrow> (Inr (Some (cost, D)), self')))))"

definition pull_weights ::
  "'n network_methods \<Rightarrow> ('n, 'r, 'z) AgentBase_scheme \<Rightarrow> ('n, 'r, 'z) AgentBase_scheme" where
  "pull_weights M self = self\<lparr>net := set_weights M (net self) (shadow_net self)\<rparr>"

definition update :: "('n, 'r, 'z) AgentBase_scheme \<Rightarrow> ('n, 'r, 'z) AgentBase_scheme" where
  "update self = self"

text \<open>The random draws of one call of \<^verbatim>\<open>sample\<close>: the value of
  \<^verbatim>\<open>np.random.uniform()\<close>, the variate \<^verbatim>\<open>np.random.choice\<close> draws, and the raw
  draw of \<^verbatim>\<open>np.random.randint\<close>.\<close>

record draws =
  uniform :: real
  variate :: real
  integer :: nat

subsection \<open>PG: policy gradient\<close>

record 'n PG = "('n, real option list) AgentBase" +
  actions :: "nat list"
  action_labels :: "vec list"
  X :: "vec list"
  Y :: "vec list"

text \<open>\<^verbatim>\<open>np.eye(n)\<close>: the rows of the identity matrix.\<close>

definition np_eye :: "nat \<Rightarrow> vec list" where
  "np_eye n = map (\<lambda>i. map (\<lambda>j. if i = j then 1 else 0) [0..<n]) [0..<n]"

definition PG_init ::
  "'n network_methods \<Rightarrow> 'n \<Rightarrow> nat \<Rightarrow> real AgentConfig option \<Rightarrow> (string \<times> real) list
     \<Rightarrow> error + 'n PG" where
  "PG_init M network nactions' agentconfig kw =
     (case AgentBase_init M network agentconfig kw of
        Inl e \<Rightarrow> Inl e
      | Inr b \<Rightarrow>
          Inr \<lparr>rewards = [], net = net b, shadow_net = shadow_net b, xp = xp b, cfg = cfg b,
               actions = [0..<nactions'], action_labels = np_eye nactions',
               X = [], Y = []\<rparr>)"

definition PG_reset :: "('n, 'z) PG_scheme \<Rightarrow> ('n, 'z) PG_scheme" where
  "PG_reset self = self\<lparr>PG.X := [], PG.Y := [], rewards := []\<rparr>"

text \<open>\<^verbatim>\<open>PG.sample\<close>. Of the conditional expression only the chosen branch is
  evaluated.\<close>

definition PG_sample ::
  "'n network_methods \<Rightarrow> draws \<Rightarrow> ('n, 'z) PG_scheme \<Rightarrow> vec \<Rightarrow> real option
     \<Rightarrow> (error + nat) \<times> ('n, 'z) PG_scheme" where
  "PG_sample M rnd self state reward =
     (let self1 = self\<lparr>PG.X := PG.X self @ [state], rewards := rewards self @ [reward]\<rparr>;
          probabilities = predict M (net self1) state
      in case attr (cfg self1) ''epsilon'' of
           Inl e \<Rightarrow> (Inl e, self1)
         | Inr epsilon \<Rightarrow>
             (case (if uniform rnd < epsilon
                    then np_random_choice (actions self1) probabilities (variate rnd)
                    else np_random_randint (integer rnd) (length (actions self1))) of
                Inl e \<Rightarrow> (Inl e, self1)
              | Inr action \<Rightarrow>
                  if action < length (action_labels self1)
                  then (Inr action,
                        self1\<lparr>PG.Y := PG.Y self1 @ [action_labels self1 ! action]\<rparr>)
                  else (Inl IndexError, self1)))"

text \<open>
  The reward array \<open>R\<close> of \<^verbatim>\<open>PG.accumulate\<close> as it stands before the labels are
  scaled by it (the first five lines of the method). A \<^verbatim>\<open>None\<close> among the rewards
  used raises TypeError in the arithmetic on \<open>R\<close>. The two divisions of the
  normalisation are NumPy divisions: a zero standard deviation yields no number.
\<close>

definition PG_accumulate_R :: "('n, 'z) PG_scheme \<Rightarrow> real \<Rightarrow> error + npfloat list" where
  "PG_accumulate_R self reward =
     (case np_array (tl (rewards self) @ [Some reward]) of
        Inl e \<Rightarrow> Inl e
      | Inr R \<Rightarrow>
          (case attr (cfg self) ''gamma'' of
             Inl e \<Rightarrow> Inl e
           | Inr gamma \<Rightarrow>
               if gamma > 0 then
                 (let R1 = discount_rewards R gamma in
                  case np_mean R1 of
                    Finite m \<Rightarrow>
                      (let R2 = map (\<lambda>x. x - m) R1 in
                       case np_std R2 of
                         Finite s \<Rightarrow> Inr (map (\<lambda>x. np_div x s) R2)
                       | other \<Rightarrow> Inr (map (\<lambda>x. NaN) R2))
                  | other \<Rightarrow> Inr (map (\<lambda>x. NaN) R1))
               else Inr (map Finite R)))"

subsection \<open>DQN: deep Q network\<close>

record 'n DQN = "('n, real option list) AgentBase" +
  X :: "vec list"
  Q :: "vec list"
  R :: "real option list"
  A :: "nat list"
  nactions :: nat

definition DQN_init ::
  "'n network_methods \<Rightarrow> 'n \<Rightarrow> nat \<Rightarrow> real AgentConfig option \<Rightarrow> (string \<times> real) list
     \<Rightarrow> error + 'n DQN" where
  "DQN_init M network nactions' agentconfig kw =
     (case AgentBase_init M network agentconfig kw of
        Inl e \<Rightarrow> Inl e
      | Inr b \<Rightarrow>
          Inr \<lparr>rewards = rewards b, net = net b, shadow_net = shadow_net b, xp = xp b,
               cfg = cfg b, X = [], Q = [], R = [], A = [], nactions = nactions'\<rparr>)"

definition DQN_reset :: "('n, 'z) DQN_scheme \<Rightarrow> ('n, 'z) DQN_scheme" where
  "DQN_reset self = self\<lparr>DQN.X := [], Q := [], R := [], A := []\<rparr>"

definition DQN_sample ::
  "'n network_methods \<Rightarrow> draws \<Rightarrow> ('n, 'z) DQN_scheme \<Rightarrow> vec \<Rightarrow> real option
     \<Rightarrow> (error + nat) \<times> ('n, 'z) DQN_scheme" where
  "DQN_sample M rnd self state reward =
     (let self1 = self\<lparr>DQN.X := DQN.X self @ [state], R := R self @ [reward]\<rparr>;
          Q' = predict M (net self1) state;
          self2 = self1\<lparr>Q := Q self1 @ [Q']\<rparr>
      in case attr (cfg self2) ''epsilon'' of
           Inl e \<Rightarrow> (Inl e, self2)
         | Inr epsilon \<Rightarrow>
             (case (if uniform rnd < epsilon then np_argmax Q'
                    else np_random_randint (integer rnd) (nactions self2)) of
                Inl e \<Rightarrow> (Inl e, self2)
              | Inr action \<Rightarrow> (Inr action, self2\<lparr>A := A self2 @ [action]\<rparr>)))"

text \<open>The first line of \<^verbatim>\<open>DQN.accumulate\<close>: the list that becomes the reward
  array.\<close>

definition DQN_reward_list :: "('n, 'z) DQN_scheme \<Rightarrow> real \<Rightarrow> real option list" where
  "DQN_reward_list self reward = tl (rewards self) @ [Some reward]"

text \<open>\<^verbatim>\<open>R + v\<close> for the reward array: the shapes are broadcast first, then the entries
  are added (TypeError on a \<^verbatim>\<open>None\<close>).\<close>

definition np_add_rewards :: "real option list \<Rightarrow> vec \<Rightarrow> error + vec" where
  "np_add_rewards a b =
     (if length a \<noteq> length b \<and> length a \<noteq> 1 \<and> length b \<noteq> 1 then Inl ValueError
      else (case np_array a of Inl e \<Rightarrow> Inl e | Inr a' \<Rightarrow> np_add a' b))"

text \<open>The training pairs \<open>(X, Y)\<close> that \<^verbatim>\<open>DQN.accumulate\<close> builds (its first five
  lines).\<close>

definition DQN_targets :: "('n, 'z) DQN_scheme \<Rightarrow> real \<Rightarrow> error + (vec list \<times> vec list)" where
  "DQN_targets self reward =
     (let R' = DQN_reward_list self reward in
      case np_stack (butlast (DQN.X self)) of
        Inl e \<Rightarrow> Inl e
      | Inr X' \<Rightarrow>
          (case np_stack (tl (Q self)) of
             Inl e \<Rightarrow> Inl e
           | Inr Y' \<Rightarrow>
               (let ix = tl (A self) in
                case np_max_axis1 Y' of
                  Inl e \<Rightarrow> Inl e
                | Inr qmax \<Rightarrow>
                    (case attr (cfg self) ''gamma'' of
                       Inl e \<Rightarrow> Inl e
                     | Inr gamma \<Rightarrow>
                         (case np_add_rewards R' (map (\<lambda>q. gamma * q) qmax) of
                            Inl e \<Rightarrow> Inl e
                          | Inr v \<Rightarrow>
                              (case np_setcols Y' ix v of
                                 Inl e \<Rightarrow> Inl e
                               | Inr Y'' \<Rightarrow> Inr (X', Y'')))))))"

text \<open>\<^verbatim>\<open>DQN.accumulate\<close>: unpacking \<^verbatim>\<open>cost, D\<close> from a \<^verbatim>\<open>None\<close> raises
  TypeError.\<close>

definition DQN_accumulate ::
  "'n network_methods \<Rightarrow> nat list \<Rightarrow> ('n, 'z) DQN_scheme \<Rightarrow> real
     \<Rightarrow> error option \<times> ('n, 'z) DQN_scheme" where
  "DQN_accumulate M rs self reward =
     (case DQN_targets self reward of
        Inl e \<Rightarrow> (Some e, self)
      | Inr (X', Y') \<Rightarrow>
          (let self1 = self\<lparr>xp := remember (xp self) X' Y'\<rparr>;
               self2 = DQN_reset self1
           in case learn_batch M rs self2 of
                (Inl e, self3) \<Rightarrow> (Some e, self3)
              | (Inr None, self3) \<Rightarrow> (Some TypeError, self3)
              | (Inr (Some (cost, D)), self3) \<Rightarrow> (None, self3)))"

text \<open>The calls a driver can make on a Deep-Q agent, with their arguments and random
  draws, and the agent after a call, whether it returned or raised.\<close>

datatype DQN_call =
    Sample draws vec "real option"
  | Accumulate "nat list" real
  | Reset
  | Learn_batch "nat list"
  | Push_weights
  | Pull_weights
  | Update

fun DQN_perform :: "'n network_methods \<Rightarrow> 'n DQN \<Rightarrow> DQN_call \<Rightarrow> 'n DQN" where
  "DQN_perform M self (Sample rnd state reward) = snd (DQN_sample M rnd self state reward)"
| "DQN_perform M self (Accumulate rs reward) = snd (DQN_accumulate M rs self reward)"
| "DQN_perform M self Reset = DQN_reset self"
| "DQN_perform M self (Learn_batch rs) = snd (learn_batch M rs self)"
| "DQN_perform M self Push_weights = snd (push_weights M self)"
| "DQN_perform M self Pull_weights = pull_weights M self"
| "DQN_perform M self Update = update self"

subsection \<open>HillClimbing\<close>

record 'n HillClimbing = "('n, real) AgentBase" +
  bestreward :: real

definition HillClimbing_init ::
  "'n network_methods \<Rightarrow> 'n \<Rightarrow> real AgentConfig option \<Rightarrow> (string \<times> real) list
     \<Rightarrow> error + 'n HillClimbing" where
  "HillClimbing_init M network agentconfig kw =
     (case AgentBase_init M network agentconfig kw of
        Inl e \<Rightarrow> Inl e
      | Inr b \<Rightarrow>
          Inr \<lparr>rewards = 0, net = net b, shadow_net = shadow_net b, xp = xp b, cfg = cfg b,
               bestreward = 0\<rparr>)"

definition HillClimbing_reset :: "('n, 'z) HillClimbing_scheme \<Rightarrow> ('n, 'z) HillClimbing_scheme" where
  "HillClimbing_reset self = self\<lparr>rewards := 0\<rparr>"

definition HillClimbing_sample ::
  "'n network_methods \<Rightarrow> ('n, 'z) HillClimbing_scheme \<Rightarrow> vec \<Rightarrow> real option
     \<Rightarrow> (error + nat) \<times> ('n, 'z) HillClimbing_scheme" where
  "HillClimbing_sample M self state reward =
     (let self1 = self\<lparr>rewards := rewards self + (case reward of Some r \<Rightarrow> r | None \<Rightarrow> 0)\<rparr>;
          pred = predict M (net self1) state
      in (np_argmax pred, self1))"

text \<open>\<^verbatim>\<open>HillClimbing.accumulate\<close>; \<open>z\<close> is the stream \<^verbatim>\<open>np.random.randn\<close> draws
  from. The argument \<^verbatim>\<open>reward\<close> is not used by the method.\<close>

definition HillClimbing_accumulate ::
  "'n network_methods \<Rightarrow> (nat \<Rightarrow> real) \<Rightarrow> ('n, 'z) HillClimbing_scheme \<Rightarrow> real
     \<Rightarrow> ('n, 'z) HillClimbing_scheme" where
  "HillClimbing_accumulate M z self reward =
     (let W = get_weights M (net self);
          self1 = (if rewards self > bestreward self
                   then self\<lparr>bestreward := rewards self, shadow_net := W\<rparr>
                   else self);
          self2 = self1\<lparr>net := set_weights M (net self1)
                    (map2 (\<lambda>w n. w + n) W (map (\<lambda>n. n * 0.1) (np_random_randn z (length W))))\<rparr>
      in HillClimbing_reset self2)"

subsection \<open>Example inputs\<close>

text \<open>
  Concrete inputs for the closed theorems below. The example network has its weight vector
  as its state, predicts the state it is given (so the state of the environment is the
  Q-vector or the distribution the agent sees), and training leaves it as it is at cost 0.
\<close>

definition echo_network :: "vec network_methods" where
  "echo_network =
     \<lparr>predict = (\<lambda>n s. s),
      train_on_batch = (\<lambda>n X' Y'. (0, n)),
      get_weights = (\<lambda>n. n),
      set_weights = (\<lambda>n w. w)\<rparr>"

text \<open>Two outcomes of the random draws of one \<^verbatim>\<open>sample\<close> call: the uniform draw below
  and above an exploration rate of 0.1.\<close>

definition draw_below_epsilon :: draws where
  "draw_below_epsilon = \<lparr>uniform = 1 / 20, variate = 3 / 10, integer = 1\<rparr>"

definition draw_above_epsilon :: draws where
  "draw_above_epsilon = \<lparr>uniform = 1 / 2, variate = 3 / 10, integer = 1\<rparr>"

definition example_agent :: "(vec, real option list) AgentBase" where
  "example_agent =
     \<lparr>rewards = [], net = [4, 6], shadow_net = [1, 2], xp = Experience_init 10,
      cfg = AgentConfig_init 2 (99 / 100) (1 / 2) (1 / 10) 10\<rparr>"

definition example_PG :: "real option list \<Rightarrow> real \<Rightarrow> vec PG" where
  "example_PG recorded gamma =
     \<lparr>rewards = recorded, net = [4, 6], shadow_net = [1, 2], xp = Experience_init 10,
      cfg = AgentConfig_init 2 gamma (1 / 2) (1 / 10) 10,
      actions = [0, 1], action_labels = np_eye 2,
      X = map (\<lambda>r. [1, 0]) recorded, Y = map (\<lambda>r. [1, 0]) recorded\<rparr>"

text \<open>The Deep-Q agent that \<^verbatim>\<open>DQN(network, 2, discount_factor=0.5)\<close> constructs on
  the example network with weights \<open>[4, 6]\<close>, and an episode of two \<^verbatim>\<open>sample\<close>
  calls.\<close>

definition example_DQN :: "vec DQN" where
  "example_DQN =
     \<lparr>rewards = [], net = [4, 6], shadow_net = [4, 6], xp = Experience_init 9000,
      cfg = AgentConfig_init 300 (1 / 2) (1 / 10) (1 / 10) 9000,
      X = [], Q = [], R = [], A = [], nactions = 2\<rparr>"

definition example_episode :: "DQN_call list" where
  "example_episode =
     [Sample draw_below_epsilon [2, 1] None, Sample draw_below_epsilon [3, 5] (Some 10)]"

section \<open>Properties\<close>

subsection \<open>AgentConfig: names and aliases\<close>

lemma alias_item_simps:
  "alias_item ''training_batch_size'' = Inr ''bsize''"
  "alias_item ''discount_factor'' = Inr ''gamma''"
  "alias_item ''knowledge_transfer_rate'' = Inr ''tau''"
  "alias_item ''epsilon_greedy_rate'' = Inr ''epsilon''"
  "alias_item ''replay_memory_size'' = Inr ''xpsize''"
  "alias_item ''bsize'' = Inr ''bsize''"
  "alias_item ''gamma'' = Inr ''gamma''"
  "alias_item ''tau'' = Inr ''tau''"
  "alias_item ''xpsize'' = Inr ''xpsize''"
  "alias_item ''epsilon'' = Inr ''epsilon''"
  by (simp_all add: alias_item_def alias_table_def)

lemma alias_item_unknown:
  assumes "name \<notin> {''training_batch_size'', ''discount_factor'', ''knowledge_transfer_rate'',
             ''epsilon_greedy_rate'', ''replay_memory_size'',
             ''bsize'', ''gamma'', ''tau'', ''xpsize'', ''epsilon''}"
  shows "alias_item name = Inl (KeyError name)"
  using assms by (simp add: alias_item_def alias_table_def)

lemma setitem_keeps_key: "self k \<noteq> None \<Longrightarrow> snd (setitem self key val) k \<noteq> None"
  by (simp add: setitem_def split: sum.splits)

lemma setitems_keeps_key: "self k \<noteq> None \<Longrightarrow> setitems self ms k \<noteq> None"
proof (induction ms arbitrary: self)
  case Nil
  then show ?case by simp
next
  case (Cons m ms)
  obtain key val where m: "m = (key, val)" by (cases m)
  show ?case unfolding m setitems.simps
    using Cons.prems by (intro Cons.IH setitem_keeps_key [of self k key val])
qed

lemma AgentConfig_init_keys:
  "AgentConfig_init b g t e x ''bsize'' \<noteq> None"
  "AgentConfig_init b g t e x ''gamma'' \<noteq> None"
  "AgentConfig_init b g t e x ''tau'' \<noteq> None"
  "AgentConfig_init b g t e x ''epsilon'' \<noteq> None"
  "AgentConfig_init b g t e x ''xpsize'' \<noteq> None"
  by (simp_all add: AgentConfig_init_def)

lemma getitem_via:
  "alias_item a = Inr k \<Longrightarrow> alias_item b = Inr k \<Longrightarrow> self k \<noteq> None \<Longrightarrow>
   \<exists>v. self k = Some v \<and> getitem self a = Inr v \<and> getitem self b = Inr v"
  by (auto simp: getitem_def)

text \<open>
  Claim C8. For a configuration built by the constructor from any five values and then
  changed by any sequence of key-based assignments (through canonical names, aliases or
  names that are refused), each canonical name and its alias read the same single stored
  value: \<^verbatim>\<open>cfg["discount_factor"] == cfg["gamma"]\<close>, and likewise for
  \<^verbatim>\<open>training_batch_size/bsize\<close>, \<^verbatim>\<open>knowledge_transfer_rate/tau\<close>,
  \<^verbatim>\<open>epsilon_greedy_rate/epsilon\<close> and \<^verbatim>\<open>replay_memory_size/xpsize\<close>. Both reads
  succeed, and the value is the one entry of the instance dictionary under the short name.
\<close>

theorem alias_pairs_resolve_to_one_value:
  fixes ms :: "(string \<times> 'v) list"
  shows
  "let c = setitems (AgentConfig_init b g t e x) ms in
     (\<exists>v. c ''gamma'' = Some v \<and>
          getitem c ''discount_factor'' = Inr v \<and> getitem c ''gamma'' = Inr v) \<and>
     (\<exists>v. c ''bsize'' = Some v \<and>
          getitem c ''training_batch_size'' = Inr v \<and> getitem c ''bsize'' = Inr v) \<and>
     (\<exists>v. c ''tau'' = Some v \<and>
          getitem c ''knowledge_transfer_rate'' = Inr v \<and> getitem c ''tau'' = Inr v) \<and>
     (\<exists>v. c ''epsilon'' = Some v \<and>
          getitem c ''epsilon_greedy_rate'' = Inr v \<and> getitem c ''epsilon'' = Inr v) \<and>
     (\<exists>v. c ''xpsize'' = Some v \<and>
          getitem c ''replay_memory_size'' = Inr v \<and> getitem c ''xpsize'' = Inr v)"
  unfolding Let_def
  by (intro conjI getitem_via alias_item_simps setitems_keeps_key AgentConfig_init_keys)

text \<open>
  Claim C9. For every configuration and every name that is none of the five canonical
  names and none of the five aliases, reading \<^verbatim>\<open>cfg[name]\<close> and assigning
  \<^verbatim>\<open>cfg[name] = v\<close> both raise: the lookup in the alias table fails with Python's
  KeyError for that name (the spec's UnknownOption). The failed assignment leaves the
  configuration as it was, so no entry is created.
\<close>

theorem unknown_name_raises_KeyError:
  assumes "name \<notin> {''training_batch_size'', ''discount_factor'', ''knowledge_transfer_rate'',
             ''epsilon_greedy_rate'', ''replay_memory_size'',
             ''bsize'', ''gamma'', ''tau'', ''xpsize'', ''epsilon''}"
  shows "getitem self name = Inl (KeyError name) \<and>
         setitem self name val = (Some (KeyError name), self)"
  using alias_item_unknown [OF assms] by (simp add: getitem_def setitem_def)

theorem unknown_name_raises_KeyError_witness:
  "''learning_rate'' \<notin> {''training_batch_size'', ''discount_factor'',
             ''knowledge_transfer_rate'', ''epsilon_greedy_rate'', ''replay_memory_size'',
             ''bsize'', ''gamma'', ''tau'', ''xpsize'', ''epsilon''} \<and>
   getitem (AgentConfig_init (300::real) 0.99 0.1 0.1 9000) ''learning_rate''
     = Inl (KeyError ''learning_rate'') \<and>
   setitem (AgentConfig_init (300::real) 0.99 0.1 0.1 9000) ''learning_rate'' 0.5
     = (Some (KeyError ''learning_rate''), AgentConfig_init 300 0.99 0.1 0.1 9000)"
  using unknown_name_raises_KeyError
          [of "''learning_rate''" "AgentConfig_init (300::real) 0.99 0.1 0.1 9000" "0.5"]
  by simp

subsection \<open>AgentBase: soft update of the shadow weights\<close>

lemma np_sub_same_shape:
  "length a = length b \<Longrightarrow> np_sub a b = Inr (map2 (\<lambda>x y. x - y) a b)"
  by (simp add: np_sub_def np_broadcast2_def)

lemma np_iadd_same_shape:
  "length b = length a \<Longrightarrow> np_iadd a b = Inr (map2 (\<lambda>x y. x + y) a b)"
  by (simp add: np_iadd_def)

lemma np_linalg_norm_difference:
  fixes a b :: vec
  assumes "length a = length b"
  shows "np_linalg_norm (map2 (\<lambda>x y. x - y) a b) = sqrt (\<Sum>i<length b. (a ! i - b ! i)\<^sup>2)"
proof -
  let ?d = "map (\<lambda>x. x * x) (map2 (\<lambda>x y. x - y) a b)"
  have "sum_list ?d = (\<Sum>i = 0..<length b. ?d ! i)"
    using assms by (simp add: sum_list_sum_nth)
  also have "\<dots> = (\<Sum>i = 0..<length b. (a ! i - b ! i)\<^sup>2)"
    using assms by (intro sum.cong) (simp_all add: power2_eq_square)
  finally have "sum_list ?d = (\<Sum>i<length b. (a ! i - b ! i)\<^sup>2)"
    by (simp add: atLeast0LessThan)
  then show ?thesis unfolding np_linalg_norm_def by (rule arg_cong)
qed

lemma moving_average_nth:
  fixes a b :: vec
  assumes "length a = length b"
  shows "map2 (\<lambda>x y. x + y) (map (\<lambda>x. x * (1 - tau)) a) (map (\<lambda>w. tau * w) b)
         = map (\<lambda>i. (1 - tau) * a ! i + tau * b ! i) [0..<length b]"
  using assms by (intro nth_equalityI) (simp_all add: algebra_simps)

text \<open>
  Claim C4. For every agent whose shadow vector has the shape of the network's flattened
  weights, and every soft-update rate \<open>tau\<close> (so in particular every \<open>tau\<close> in (0, 1]):
  \<^verbatim>\<open>push_weights\<close> returns the Euclidean norm of the difference between the shadow
  weights as they are on entry and the network's current weights, divided (NumPy division)
  by the number of parameters; afterwards each shadow weight is
  \<open>(1 - tau) * old_shadow + tau * current\<close>, and nothing else of the agent has changed.
\<close>

theorem push_weights_drift_and_moving_average:
  fixes self :: "('n, 'r, 'z) AgentBase_scheme"
  assumes tau: "cfg self ''tau'' = Some tau"
      and shape: "length (shadow_net self) = length (get_weights M (net self))"
  shows "push_weights M self =
           (let S = shadow_net self; W = get_weights M (net self); n = length W
            in (Inr (np_div (sqrt (\<Sum>i<n. (S ! i - W ! i)\<^sup>2)) (real n)),
                self\<lparr>shadow_net := map (\<lambda>i. (1 - tau) * S ! i + tau * W ! i) [0..<n]\<rparr>))"
proof -
  let ?S = "shadow_net self" and ?W = "get_weights M (net self)"
  have sub: "np_sub ?S ?W = Inr (map2 (\<lambda>x y. x - y) ?S ?W)"
    using shape by (rule np_sub_same_shape)
  have add: "np_iadd (map (\<lambda>x. x * (1 - tau)) ?S) (map (\<lambda>w. tau * w) ?W)
               = Inr (map (\<lambda>i. (1 - tau) * ?S ! i + tau * ?W ! i) [0..<length ?W])"
    using shape by (simp add: np_iadd_same_shape moving_average_nth)
  show ?thesis
    unfolding push_weights_def Let_def
    by (simp add: sub add tau attr_def np_linalg_norm_difference [OF shape])
qed

theorem push_weights_drift_and_moving_average_witness:
  "cfg example_agent ''tau'' = Some (1 / 2) \<and>
   length (shadow_net example_agent) = length (get_weights echo_network (net example_agent)) \<and>
   shadow_net example_agent = [1, 2] \<and>
   get_weights echo_network (net example_agent) = [4, 6] \<and>
   push_weights echo_network example_agent
     = (Inr (Finite (5 / 2)), example_agent\<lparr>shadow_net := [5 / 2, 4]\<rparr>)"
proof -
  have t: "cfg example_agent ''tau'' = Some (1 / 2)"
    by (simp add: example_agent_def AgentConfig_init_def)
  have s: "length (shadow_net example_agent)
             = length (get_weights echo_network (net example_agent))"
    by (simp add: example_agent_def echo_network_def)
  have S: "shadow_net example_agent = [1, 2]"
    and W: "get_weights echo_network (net example_agent) = [4, 6]"
    by (simp_all add: example_agent_def echo_network_def)
  have sq: "sqrt 25 = 5" using real_sqrt_abs [of 5] by simp
  have up: "[0..<2] = [0, 1]" by (simp add: upt_rec)
  have "push_weights echo_network example_agent
          = (Inr (Finite (5 / 2)), example_agent\<lparr>shadow_net := [5 / 2, 4]\<rparr>)"
    using push_weights_drift_and_moving_average [OF t s]
    unfolding S W by (simp add: Let_def np_div_def lessThan_Suc numeral_2_eq_2 sq up)
  then show ?thesis using t s S W by simp
qed

subsection \<open>AgentBase: one training step\<close>

lemma draw_without_replacement_Nil [simp]: "draw_without_replacement rs [] n = []"
  by (cases n) simp_all

lemma draw_without_replacement_pos:
  "0 < n \<Longrightarrow> draw_without_replacement rs (x # xs) n =
     (let i = (case rs of [] \<Rightarrow> 0 | r # _ \<Rightarrow> r mod length (x # xs))
      in ((x # xs) ! i) #
         draw_without_replacement (tl rs) (take i (x # xs) @ drop (Suc i) (x # xs)) (n - 1))"
  by (cases n) simp_all

lemma length_draw_without_replacement:
  "length (draw_without_replacement rs pool n) = min n (length pool)"
proof (induction rs pool n rule: draw_without_replacement.induct)
  case (3 rs x xs n)
  define i where "i = (case rs of [] \<Rightarrow> 0 | r # _ \<Rightarrow> r mod length (x # xs))"
  have i: "i < length (x # xs)" by (simp add: i_def split: list.splits)
  have "length (take i (x # xs) @ drop (Suc i) (x # xs)) = length xs"
    using i by (simp add: min_def)
  with 3 [OF i_def] show ?case by (simp add: Let_def i_def [symmetric])
qed simp_all

lemma set_draw_without_replacement:
  "set (draw_without_replacement rs pool n) \<subseteq> set pool"
proof (induction rs pool n rule: draw_without_replacement.induct)
  case (3 rs x xs n)
  define i where "i = (case rs of [] \<Rightarrow> 0 | r # _ \<Rightarrow> r mod length (x # xs))"
  have i: "i < length (x # xs)" by (simp add: i_def split: list.splits)
  have "set (take i (x # xs) @ drop (Suc i) (x # xs)) \<subseteq> set (x # xs)"
    using set_take_subset [of i "x # xs"] set_drop_subset [of "Suc i" "x # xs"] by auto
  moreover have "(x # xs) ! i \<in> set (x # xs)" using i by (rule nth_mem)
  ultimately show ?case using 3 [OF i_def]
    by (simp add: Let_def i_def [symmetric] del: nth_Cons_Suc take_Cons' drop_Suc_Cons) blast
qed simp_all

lemma replay_sample:
  assumes "replay self n rs = (Xb, Yb)"
  shows "length Xb = min n (length (memory self))" "length Yb = length Xb"
    "set (zip Xb Yb) \<subseteq> set (memory self)"
proof -
  let ?b = "draw_without_replacement rs (memory self) n"
  have Xb: "Xb = map fst ?b" and Yb: "Yb = map snd ?b"
    using assms by (simp_all add: replay_def Let_def)
  show "length Xb = min n (length (memory self))"
    by (simp add: Xb length_draw_without_replacement)
  show "length Yb = length Xb" by (simp add: Xb Yb)
  have "zip Xb Yb = ?b" unfolding Xb Yb by (simp add: zip_map_fst_snd)
  then show "set (zip Xb Yb) \<subseteq> set (memory self)"
    by (simp add: set_draw_without_replacement)
qed

text \<open>
  Claim C5. For every agent with a batch size: \<^verbatim>\<open>learn_batch\<close> samples a batch
  \<open>(Xb, Yb)\<close> of at most \<open>bsize\<close> pairs of the buffer. If the batch is empty it returns
  \<^verbatim>\<open>None\<close> and the agent, its network included, is exactly as before: no training and
  no soft update has happened (the network is arbitrary, so a call of either would have
  left its trace). Otherwise the network is the one that \<^verbatim>\<open>train_on_batch\<close> leaves
  after one call on the batch, \<^verbatim>\<open>push_weights\<close> runs on the agent with that
  network, and the result is the pair of the cost and the drift.
\<close>

theorem learn_batch_trains_unless_sample_empty:
  fixes self :: "('n, 'r, 'z) AgentBase_scheme"
  assumes bsize: "cfg self ''bsize'' = Some bsize"
      and sample: "replay (xp self) (nat \<lfloor>bsize\<rfloor>) rs = (Xb, Yb)"
  shows "length Xb \<le> nat \<lfloor>bsize\<rfloor> \<and> length Yb = length Xb \<and>
         set (zip Xb Yb) \<subseteq> set (memory (xp self)) \<and>
         (Xb = [] \<longrightarrow> learn_batch M rs self = (Inr None, self)) \<and>
         (Xb \<noteq> [] \<longrightarrow> train_on_batch M (net self) Xb Yb = (cost, net') \<longrightarrow>
            push_weights M (self\<lparr>net := net'\<rparr>) = (Inr D, self') \<longrightarrow>
            learn_batch M rs self = (Inr (Some (cost, D)), self'))"
proof (intro conjI impI)
  show "length Xb \<le> nat \<lfloor>bsize\<rfloor>" using replay_sample(1) [OF sample] by simp
  show "length Yb = length Xb" by (rule replay_sample(2) [OF sample])
  show "set (zip Xb Yb) \<subseteq> set (memory (xp self))" by (rule replay_sample(3) [OF sample])
  show "learn_batch M rs self = (Inr None, self)" if "Xb = []"
    using that bsize sample by (simp add: learn_batch_def attr_def)
  show "learn_batch M rs self = (Inr (Some (cost, D)), self')"
    if "Xb \<noteq> []" "train_on_batch M (net self) Xb Yb = (cost, net')"
       "push_weights M (self\<lparr>net := net'\<rparr>) = (Inr D, self')"
    using that bsize sample by (simp add: learn_batch_def attr_def)
qed

theorem learn_batch_trains_unless_sample_empty_witness:
  "cfg example_DQN ''bsize'' = Some 300 \<and>
   replay (xp example_DQN) (nat \<lfloor>300 :: real\<rfloor>) [0] = ([], []) \<and>
   learn_batch echo_network [0] example_DQN = (Inr None, example_DQN) \<and>
   cfg (example_DQN\<lparr>xp := \<lparr>limit = 9000, memory = [([2, 1], [3, 7])]\<rparr>\<rparr>) ''bsize'' = Some 300 \<and>
   replay (xp (example_DQN\<lparr>xp := \<lparr>limit = 9000, memory = [([2, 1], [3, 7])]\<rparr>\<rparr>))
     (nat \<lfloor>300 :: real\<rfloor>) [0] = ([[2, 1]], [[3, 7]]) \<and>
   train_on_batch echo_network
     (net (example_DQN\<lparr>xp := \<lparr>limit = 9000, memory = [([2, 1], [3, 7])]\<rparr>\<rparr>)) [[2, 1]] [[3, 7]]
     = (0, [4, 6]) \<and>
   push_weights echo_network
     (example_DQN\<lparr>xp := \<lparr>limit = 9000, memory = [([2, 1], [3, 7])]\<rparr>, net := [4, 6]\<rparr>)
     = (Inr (Finite 0), example_DQN\<lparr>xp := \<lparr>limit = 9000, memory = [([2, 1], [3, 7])]\<rparr>\<rparr>) \<and>
   learn_batch echo_network [0]
     (example_DQN\<lparr>xp := \<lparr>limit = 9000, memory = [([2, 1], [3, 7])]\<rparr>\<rparr>)
     = (Inr (Some (0, Finite 0)),
        example_DQN\<lparr>xp := \<lparr>limit = 9000, memory = [([2, 1], [3, 7])]\<rparr>\<rparr>)"
proof -
  let ?B = "example_DQN\<lparr>xp := \<lparr>limit = 9000, memory = [([2, 1], [3, 7])]\<rparr>\<rparr>"
  have b0: "cfg example_DQN ''bsize'' = Some 300"
    and b1: "cfg ?B ''bsize'' = Some 300"
    by (simp_all add: example_DQN_def AgentConfig_init_def)
  have r0: "replay (xp example_DQN) (nat \<lfloor>300 :: real\<rfloor>) [0] = ([], [])"
    by (simp add: example_DQN_def Experience_init_def replay_def)
  have r1: "replay (xp ?B) (nat \<lfloor>300 :: real\<rfloor>) [0] = ([[2, 1]], [[3, 7]])"
    by (simp add: example_DQN_def replay_def draw_without_replacement_pos)
  have t: "train_on_batch echo_network (net ?B) [[2, 1]] [[3, 7]] = (0, [4, 6])"
    by (simp add: example_DQN_def echo_network_def)
  have p: "push_weights echo_network (?B\<lparr>net := [4, 6]\<rparr>) = (Inr (Finite 0), ?B)"
    by (simp add: example_DQN_def echo_network_def push_weights_def np_sub_def
        np_broadcast2_def np_iadd_def np_linalg_norm_def np_div_def attr_def
        AgentConfig_init_def Let_def)
  have e: "learn_batch echo_network [0] example_DQN = (Inr None, example_DQN)"
    using learn_batch_trains_unless_sample_empty [OF b0 r0] by simp
  have l: "learn_batch echo_network [0] ?B = (Inr (Some (0, Finite 0)), ?B)"
    using learn_batch_trains_unless_sample_empty [OF b1 r1, of echo_network 0 "[4, 6]" "Finite 0" ?B]
      t p by simp
  show ?thesis using b0 b1 r0 r1 t p e l by simp
qed

subsection \<open>PG: the choice of the action\<close>

text \<open>
  Claim C2. The claim reads: when the uniform draw is at least \<open>epsilon\<close> the action of
  \<^verbatim>\<open>PG.sample\<close> is sampled from the predicted distribution, otherwise it is uniform
  over the actions. The source tests \<^verbatim>\<open>np.random.uniform() < self.cfg.epsilon\<close> for
  the branch that samples from the distribution, so the two branches are exchanged.
  Evaluated on an agent with \<open>epsilon = 0.1\<close> whose network predicts the distribution
  \<open>[1, 0]\<close> (action 0 is certain): with the draw 0.5, which is at least \<open>epsilon\<close>, the
  action returned is 1, the outcome of \<^verbatim>\<open>randint\<close>, an action of probability 0; with
  the draw 0.05, below \<open>epsilon\<close>, it is 0, the sample from the distribution.
\<close>

theorem PG_sample_draw_above_epsilon:
  "cfg (example_PG [] (99 / 100)) ''epsilon'' = Some (1 / 10) \<and>
   uniform draw_above_epsilon = 1 / 2 \<and>
   predict echo_network (net (example_PG [] (99 / 100))) [1, 0] = [1, 0] \<and>
   np_random_choice [0, 1] [1, 0] (variate draw_above_epsilon) = Inr 0 \<and>
   fst (PG_sample echo_network draw_above_epsilon (example_PG [] (99 / 100)) [1, 0] None)
     = Inr 1 \<and>
   uniform draw_below_epsilon = 1 / 20 \<and>
   fst (PG_sample echo_network draw_below_epsilon (example_PG [] (99 / 100)) [1, 0] None)
     = Inr 0"
  by (simp add: example_PG_def PG_sample_def Let_def attr_def AgentConfig_init_def
      echo_network_def draw_below_epsilon_def draw_above_epsilon_def np_random_randint_def
      np_random_choice_def np_eye_def upt_rec)

subsection \<open>PG: the rewards of an episode\<close>

lemma np_mean_nonempty: "xs \<noteq> [] \<Longrightarrow> np_mean xs = Finite (sum_list xs / real (length xs))"
  by (simp add: np_mean_def np_div_def)

lemma length_discount_rewards [simp]: "length (discount_rewards xs g) = length xs"
  by (induction xs g rule: discount_rewards.induct) simp_all

lemma sum_list_centred:
  fixes xs :: vec
  assumes "xs \<noteq> []"
  shows "sum_list (map (\<lambda>x. x - sum_list xs / real (length xs)) xs) = 0"
proof -
  have "sum_list (map (\<lambda>x. x - sum_list xs / real (length xs)) xs)
        = sum_list xs - real (length xs) * (sum_list xs / real (length xs))"
    by (simp add: sum_list_subtractf sum_list_triv)
  also have "\<dots> = 0" using assms by simp
  finally show ?thesis .
qed

lemma np_std_centred:
  fixes ys :: vec
  assumes "ys \<noteq> []" "sum_list ys = 0"
  shows "np_std ys = Finite (sqrt (sum_list (map (\<lambda>x. x * x) ys) / real (length ys)))"
  using assms by (simp add: np_std_def np_mean_nonempty)

lemma sum_list_squares_pos:
  fixes ys :: vec
  assumes "y \<in> set ys" "y \<noteq> 0"
  shows "0 < sum_list (map (\<lambda>x. x * x) ys)"
proof -
  have nonneg: "\<And>x. x \<in> set (map (\<lambda>x. x * x) ys) \<Longrightarrow> 0 \<le> x" by auto
  have "0 \<le> sum_list (map (\<lambda>x. x * x) ys)" by (rule sum_list_nonneg) (use nonneg in auto)
  moreover have "sum_list (map (\<lambda>x. x * x) ys) \<noteq> 0"
  proof
    assume "sum_list (map (\<lambda>x. x * x) ys) = 0"
    then have "\<forall>x\<in>set (map (\<lambda>x. x * x) ys). x = 0"
      using sum_list_nonneg_eq_0_iff [of "map (\<lambda>x. x * x) ys"] nonneg by blast
    then have "y * y = 0" using assms(1) by simp
    then show False using assms(2) by simp
  qed
  ultimately show ?thesis by simp
qed

lemma not_constant_centred_nonzero:
  fixes xs :: vec
  assumes "\<not> (\<forall>x\<in>set xs. \<forall>y\<in>set xs. x = y)"
  shows "\<exists>y\<in>set (map (\<lambda>x. x - m) xs). y \<noteq> 0"
proof -
  obtain a b where ab: "a \<in> set xs" "b \<in> set xs" "a \<noteq> b" using assms by blast
  show ?thesis
  proof (cases "a = m")
    case True
    then have "b - m \<noteq> 0" using ab(3) by simp
    then show ?thesis using ab(2) by (intro bexI [of _ "b - m"]) simp_all
  next
    case False
    then have "a - m \<noteq> 0" by simp
    then show ?thesis using ab(1) by (intro bexI [of _ "a - m"]) simp_all
  qed
qed

text \<open>The two normalisation steps on a sequence whose entries are not all equal: the
  divisor is not zero, and the outcome has mean 0 and standard deviation 1.\<close>

lemma normalise_mean_std:
  fixes G :: vec
  assumes nc: "\<not> (\<forall>x\<in>set G. \<forall>y\<in>set G. x = y)"
  defines "m \<equiv> sum_list G / real (length G)"
  defines "R2 \<equiv> map (\<lambda>x. x - m) G"
  defines "s \<equiv> sqrt (sum_list (map (\<lambda>x. x * x) R2) / real (length R2))"
  shows "np_mean G = Finite m" "np_std R2 = Finite s" "s \<noteq> 0"
        "np_mean (map (\<lambda>x. x / s) R2) = Finite 0"
        "np_std (map (\<lambda>x. x / s) R2) = Finite 1"
proof -
  have G: "G \<noteq> []" using nc by auto
  then have R2: "R2 \<noteq> []" and len: "0 < real (length R2)" by (simp_all add: R2_def)
  show "np_mean G = Finite m" using G by (simp add: np_mean_nonempty m_def)
  have sum0: "sum_list R2 = 0" unfolding R2_def m_def by (rule sum_list_centred [OF G])
  show std: "np_std R2 = Finite s" unfolding s_def by (rule np_std_centred [OF R2 sum0])
  obtain y where "y \<in> set R2" "y \<noteq> 0"
    using not_constant_centred_nonzero [OF nc, of m] unfolding R2_def by blast
  then have pos: "0 < sum_list (map (\<lambda>x. x * x) R2)" by (rule sum_list_squares_pos)
  then have v: "0 < sum_list (map (\<lambda>x. x * x) R2) / real (length R2)" using len by simp
  then have s: "0 < s" unfolding s_def by simp
  then show "s \<noteq> 0" by simp
  let ?R3 = "map (\<lambda>x. x / s) R2"
  have R3: "?R3 \<noteq> []" using R2 by simp
  have "sum_list ?R3 = sum_list (map (\<lambda>x. x * inverse s) R2)"
    by (simp add: divide_inverse)
  also have "\<dots> = sum_list R2 * inverse s" by (simp add: sum_list_mult_const)
  finally have sum3: "sum_list ?R3 = 0" using sum0 by simp
  show "np_mean ?R3 = Finite 0" using R3 sum3 by (simp add: np_mean_nonempty)
  have "sum_list (map (\<lambda>x. x * x) ?R3) = sum_list (map (\<lambda>x. (x * x) * inverse (s * s)) R2)"
    by (simp add: divide_inverse comp_def algebra_simps)
  also have "\<dots> = sum_list (map (\<lambda>x. x * x) R2) * inverse (s * s)"
    by (simp add: sum_list_mult_const)
  finally have sq: "sum_list (map (\<lambda>x. x * x) ?R3) = sum_list (map (\<lambda>x. x * x) R2) / (s * s)"
    by (simp add: divide_inverse)
  have ss: "s * s = sum_list (map (\<lambda>x. x * x) R2) / real (length R2)"
    unfolding s_def using pos len by (simp add: abs_of_pos)
  have one: "sum_list (map (\<lambda>x. x * x) ?R3) / real (length ?R3) = 1"
    unfolding sq ss using pos len by simp
  have "np_std ?R3 = Finite (sqrt (sum_list (map (\<lambda>x. x * x) ?R3) / real (length ?R3)))"
    by (rule np_std_centred [OF R3 sum3])
  also have "\<dots> = Finite (sqrt 1)" by (simp only: one)
  finally show "np_std ?R3 = Finite 1" by simp
qed

lemma np_array_Some: "np_array (map Some xs) = Inr xs"
  by (simp add: np_array_def list_ex_iff comp_def)

lemma np_array_recorded:
  assumes "recorded = r0 # map Some rs"
  shows "np_array (tl recorded @ [Some reward]) = Inr (rs @ [reward])"
  using np_array_Some [of "rs @ [reward]"] assms by simp

text \<open>
  Claim C6, as amended. In \<^verbatim>\<open>PG.accumulate\<close>, for an episode with the recorded
  rewards \<open>r\<^sub>0, r\<^sub>1, \<dots>\<close> (here \<open>r0\<close> and \<open>rs\<close>; \<open>r0\<close> may be \<^verbatim>\<open>None\<close>) and the
  terminal reward: the reward sequence used is \<open>rs\<close> followed by the terminal reward. If
  \<open>gamma\<close> is not positive, the sequence is used as it is. If \<open>gamma\<close> is positive, it is
  discounted and then normalised, and when the discounted returns are not all equal the
  outcome is the sequence of the returns minus their mean, divided by their standard
  deviation: its mean is 0 and its standard deviation is 1.
\<close>

theorem PG_accumulate_R_discounted_and_normalised:
  fixes self :: "('n, 'z) PG_scheme"
  assumes gamma: "cfg self ''gamma'' = Some gamma"
      and recorded: "rewards self = r0 # map Some rs"
  shows "(gamma \<le> 0 \<longrightarrow> PG_accumulate_R self reward = Inr (map Finite (rs @ [reward]))) \<and>
         (0 < gamma \<longrightarrow>
            \<not> (\<forall>x\<in>set (discount_rewards (rs @ [reward]) gamma).
                 \<forall>y\<in>set (discount_rewards (rs @ [reward]) gamma). x = y) \<longrightarrow>
            (let G = discount_rewards (rs @ [reward]) gamma;
                 m = sum_list G / real (length G);
                 s = sqrt (sum_list (map (\<lambda>g. (g - m) * (g - m)) G) / real (length G));
                 R' = map (\<lambda>g. (g - m) / s) G
             in PG_accumulate_R self reward = Inr (map Finite R') \<and>
                np_mean R' = Finite 0 \<and> np_std R' = Finite 1))"
proof (intro conjI impI)
  assume "gamma \<le> 0"
  then show "PG_accumulate_R self reward = Inr (map Finite (rs @ [reward]))"
    using gamma by (simp add: PG_accumulate_R_def np_array_recorded [OF recorded] attr_def)
next
  let ?G = "discount_rewards (rs @ [reward]) gamma"
  assume pos: "0 < gamma" and nc: "\<not> (\<forall>x\<in>set ?G. \<forall>y\<in>set ?G. x = y)"
  define m where "m = sum_list ?G / real (length ?G)"
  define R2 where "R2 = map (\<lambda>x. x - m) ?G"
  define s where "s = sqrt (sum_list (map (\<lambda>x. x * x) R2) / real (length R2))"
  note n = normalise_mean_std [OF nc, folded m_def, folded R2_def, folded s_def]
  have R3: "map (\<lambda>x. x / s) R2 = map (\<lambda>g. (g - m) / s) ?G"
    by (simp add: R2_def)
  have s': "s = sqrt (sum_list (map (\<lambda>g. (g - m) * (g - m)) ?G) / real (length ?G))"
    by (simp add: s_def R2_def comp_def)
  have "PG_accumulate_R self reward = Inr (map (\<lambda>x. np_div x s) R2)"
    using gamma pos n(1,2)
    by (simp add: PG_accumulate_R_def np_array_recorded [OF recorded] attr_def Let_def R2_def)
  also have "map (\<lambda>x. np_div x s) R2 = map Finite (map (\<lambda>x. x / s) R2)"
    using n(3) by (simp add: np_div_def)
  finally have "PG_accumulate_R self reward = Inr (map Finite (map (\<lambda>g. (g - m) / s) ?G))"
    by (simp only: R3)
  moreover have "np_mean (map (\<lambda>g. (g - m) / s) ?G) = Finite 0" using n(4) by (simp only: R3)
  moreover have "np_std (map (\<lambda>g. (g - m) / s) ?G) = Finite 1" using n(5) by (simp only: R3)
  ultimately show "let G = ?G;
                 m = sum_list G / real (length G);
                 s = sqrt (sum_list (map (\<lambda>g. (g - m) * (g - m)) G) / real (length G));
                 R' = map (\<lambda>g. (g - m) / s) G
             in PG_accumulate_R self reward = Inr (map Finite R') \<and>
                np_mean R' = Finite 0 \<and> np_std R' = Finite 1"
    unfolding Let_def m_def [symmetric] s' [symmetric] by simp
qed

text \<open>
  The theorem at two episodes of two steps: with \<open>gamma = 0\<close> the rewards \<open>[1, 5]\<close> are
  used as they are; with \<open>gamma = 0.5\<close> the rewards \<open>[0, 4]\<close> are discounted to
  \<open>[2, 4]\<close> and normalised to \<open>[-1, 1]\<close>.
\<close>

theorem PG_accumulate_R_discounted_and_normalised_witness:
  "cfg (example_PG [None, Some 1] 0) ''gamma'' = Some 0 \<and>
   rewards (example_PG [None, Some 1] 0) = None # map Some [1] \<and>
   PG_accumulate_R (example_PG [None, Some 1] 0) 5 = Inr [Finite 1, Finite 5] \<and>
   cfg (example_PG [None, Some 0] (1 / 2)) ''gamma'' = Some (1 / 2) \<and>
   rewards (example_PG [None, Some 0] (1 / 2)) = None # map Some [0] \<and>
   discount_rewards ([0] @ [4]) (1 / 2) = [2, 4] \<and>
   PG_accumulate_R (example_PG [None, Some 0] (1 / 2)) 4 = Inr [Finite (- 1), Finite 1] \<and>
   np_mean [- 1, 1] = Finite 0 \<and> np_std [- 1, 1] = Finite 1"
proof -
  have g0: "cfg (example_PG [None, Some 1] 0) ''gamma'' = Some 0"
    and r0: "rewards (example_PG [None, Some 1] 0) = None # map Some [1]"
    and g1: "cfg (example_PG [None, Some 0] (1 / 2)) ''gamma'' = Some (1 / 2)"
    and r1: "rewards (example_PG [None, Some 0] (1 / 2)) = None # map Some [0]"
    by (simp_all add: example_PG_def AgentConfig_init_def)
  have d: "discount_rewards ([0] @ [4]) (1 / 2) = [2, 4]" by simp
  show ?thesis
    using PG_accumulate_R_discounted_and_normalised [OF g0 r0, of 5]
      PG_accumulate_R_discounted_and_normalised [OF g1 r1, of 4] g0 r0 g1 r1
    unfolding d by (simp add: Let_def)
qed

text \<open>
  The claim as it is stated fails where the discounted returns are all equal: an episode
  of two steps (\<open>T = 2 > 1\<close>) with \<open>gamma = 0.99 > 0\<close> whose rewards are all 0. The returns
  are \<open>[0, 0]\<close>, their standard deviation is 0, and the division yields an array of
  not-a-number entries, which has neither mean 0 nor standard deviation 1.
\<close>

theorem PG_accumulate_R_constant_returns_counterexample:
  "cfg (example_PG [None, Some 0] (99 / 100)) ''gamma'' = Some (99 / 100) \<and>
   rewards (example_PG [None, Some 0] (99 / 100)) = [None, Some 0] \<and>
   discount_rewards [0, 0] (99 / 100) = [0, 0] \<and>
   PG_accumulate_R (example_PG [None, Some 0] (99 / 100)) 0 = Inr [NaN, NaN]"
  by (simp add: example_PG_def AgentConfig_init_def PG_accumulate_R_def attr_def np_array_def
      np_mean_def np_std_def np_div_def)

subsection \<open>DQN: the choice of the action\<close>

text \<open>
  Claim C3. The claim reads: when the uniform draw is at least \<open>epsilon\<close> the action of
  \<^verbatim>\<open>DQN.sample\<close> is the arg-max of the predicted Q-vector, otherwise it is uniform over
  the actions. The source takes the arg-max when
  \<^verbatim>\<open>np.random.uniform() < self.cfg.epsilon\<close>, so the two branches are exchanged.
  Evaluated on the example agent (\<open>epsilon = 0.1\<close>, two actions) at a state with the
  Q-vector \<open>[5, 1]\<close>, whose arg-max is 0: with the draw 0.5, which is at least \<open>epsilon\<close>,
  the action returned is 1, the outcome of \<^verbatim>\<open>randint\<close>; with the draw 0.05, below
  \<open>epsilon\<close>, it is the arg-max 0.
\<close>

theorem DQN_sample_draw_above_epsilon:
  "cfg example_DQN ''epsilon'' = Some (1 / 10) \<and>
   uniform draw_above_epsilon = 1 / 2 \<and>
   predict echo_network (net example_DQN) [5, 1] = [5, 1] \<and>
   np_argmax [5, 1] = Inr 0 \<and>
   fst (DQN_sample echo_network draw_above_epsilon example_DQN [5, 1] None) = Inr 1 \<and>
   uniform draw_below_epsilon = 1 / 20 \<and>
   fst (DQN_sample echo_network draw_below_epsilon example_DQN [5, 1] None) = Inr 0"
  by (simp add: example_DQN_def DQN_sample_def Let_def attr_def AgentConfig_init_def
      echo_network_def draw_below_epsilon_def draw_above_epsilon_def np_random_randint_def)

subsection \<open>DQN: the inherited list of rewards\<close>

lemma rewards_push_weights_result:
  "push_weights M self = (r, self') \<Longrightarrow> rewards self' = rewards self"
  by (auto simp: push_weights_def Let_def split: sum.splits)

lemma rewards_learn_batch [simp]: "rewards (snd (learn_batch M rs self)) = rewards self"
  by (auto simp: learn_batch_def split: sum.splits prod.splits
           dest: rewards_push_weights_result)

lemma rewards_DQN_sample [simp]:
  "rewards (snd (DQN_sample M rnd self state reward)) = rewards self"
  by (simp add: DQN_sample_def Let_def split: sum.splits)

lemma rewards_DQN_accumulate [simp]:
  "rewards (snd (DQN_accumulate M rs self reward)) = rewards self"
proof (cases "DQN_targets self reward")
  case (Inl e)
  then show ?thesis by (simp add: DQN_accumulate_def)
next
  case (Inr p)
  obtain X' Y' where p: "p = (X', Y')" by (cases p)
  let ?s = "DQN_reset (self\<lparr>xp := remember (xp self) X' Y'\<rparr>)"
  have "rewards (snd (learn_batch M rs ?s)) = rewards self"
    by (simp add: DQN_reset_def)
  then show ?thesis
    unfolding DQN_accumulate_def Inr p
    by (cases "learn_batch M rs ?s")
       (auto simp: Let_def split: sum.splits option.splits prod.splits)
qed

lemma rewards_push_weights [simp]: "rewards (snd (push_weights M self)) = rewards self"
  by (rule rewards_push_weights_result [of M self "fst (push_weights M self)"]) simp

lemma rewards_DQN_perform [simp]: "rewards (DQN_perform M self call) = rewards self"
  by (cases call) (simp_all add: DQN_reset_def pull_weights_def update_def)

lemma rewards_DQN_calls: "rewards (foldl (DQN_perform M) self calls) = rewards self"
  by (induction calls arbitrary: self) simp_all

lemma rewards_DQN_init:
  "DQN_init M network n agentconfig kw = Inr self \<Longrightarrow> rewards self = []"
  by (auto simp: DQN_init_def AgentBase_init_def split: sum.splits option.splits)

text \<open>
  Claim C10. For a Deep-Q agent as its constructor returns it and any sequence of calls
  of its methods (\<^verbatim>\<open>sample\<close>, \<^verbatim>\<open>accumulate\<close>, \<^verbatim>\<open>reset\<close>, \<^verbatim>\<open>learn_batch\<close>,
  \<^verbatim>\<open>push_weights\<close>, \<^verbatim>\<open>pull_weights\<close>, \<^verbatim>\<open>update\<close>, whether they return or
  raise): the inherited list \<^verbatim>\<open>rewards\<close> is empty, so the list
  \<^verbatim>\<open>self.rewards[1:] + [reward]\<close> that \<^verbatim>\<open>DQN.accumulate\<close> turns into the reward
  array holds the terminal reward alone and has length 1, however many \<^verbatim>\<open>sample\<close>
  calls the episode had.
\<close>

theorem DQN_rewards_stay_empty:
  assumes "DQN_init M network n agentconfig kw = Inr self"
  shows "rewards (foldl (DQN_perform M) self calls) = [] \<and>
         DQN_reward_list (foldl (DQN_perform M) self calls) reward = [Some reward] \<and>
         length (DQN_reward_list (foldl (DQN_perform M) self calls) reward) = 1"
  using rewards_DQN_init [OF assms] by (simp add: DQN_reward_list_def rewards_DQN_calls)

lemma example_DQN_init:
  "DQN_init echo_network [4, 6] 2 None [(''discount_factor'', 1 / 2)] = Inr example_DQN"
  by (simp add: DQN_init_def AgentBase_init_def AgentConfig_kw_def AgentConfig_params_def
      kwarg_def attr_def AgentConfig_init_def example_DQN_def echo_network_def)

theorem DQN_rewards_stay_empty_witness:
  "DQN_init echo_network [4, 6] 2 None [(''discount_factor'', 1 / 2)] = Inr example_DQN \<and>
   rewards (foldl (DQN_perform echo_network) example_DQN example_episode) = [] \<and>
   DQN_reward_list (foldl (DQN_perform echo_network) example_DQN example_episode) 100
     = [Some 100] \<and>
   length (DQN_reward_list (foldl (DQN_perform echo_network) example_DQN example_episode) 100)
     = 1"
  using DQN_rewards_stay_empty [OF example_DQN_init, of example_episode 100] example_DQN_init
  by blast

subsection \<open>DQN: the training targets\<close>

lemma xp_push_weights_result:
  "push_weights M self = (r, self') \<Longrightarrow> xp self' = xp self"
  by (auto simp: push_weights_def Let_def split: sum.splits)

lemma xp_learn_batch [simp]: "xp (snd (learn_batch M rs self)) = xp self"
  by (auto simp: learn_batch_def split: sum.splits prod.splits
           dest: xp_push_weights_result)

text \<open>When the targets can be built, the buffer after \<^verbatim>\<open>DQN.accumulate\<close> is the
  buffer before with the pairs remembered, whether the training step returns or raises.\<close>

lemma xp_DQN_accumulate:
  assumes "DQN_targets self reward = Inr (X', Y')"
  shows "xp (snd (DQN_accumulate M rs self reward)) = remember (xp self) X' Y'"
proof -
  let ?s = "DQN_reset (self\<lparr>xp := remember (xp self) X' Y'\<rparr>)"
  have "xp (snd (learn_batch M rs ?s)) = remember (xp self) X' Y'"
    by (simp add: DQN_reset_def)
  then show ?thesis
    unfolding DQN_accumulate_def assms
    by (cases "learn_batch M rs ?s")
       (auto simp: Let_def split: sum.splits option.splits prod.splits)
qed

lemma example_episode_state:
  "foldl (DQN_perform echo_network) example_DQN example_episode =
     example_DQN\<lparr>DQN.X := [[2, 1], [3, 5]], Q := [[2, 1], [3, 5]],
                  R := [None, Some 10], A := [0, 1]\<rparr>"
  by (simp add: example_episode_def example_DQN_def DQN_sample_def Let_def attr_def
      AgentConfig_init_def echo_network_def draw_below_epsilon_def)

lemma example_targets:
  "DQN_targets (example_DQN\<lparr>DQN.X := [[2, 1], [3, 5]], Q := [[2, 1], [3, 5]],
                  R := [None, Some 10], A := [0, 1]\<rparr>) 100 = Inr ([[2, 1]], [[3, 205 / 2]])"
  by (simp add: example_DQN_def DQN_targets_def DQN_reward_list_def np_stack_def Let_def attr_def
      AgentConfig_init_def np_add_rewards_def np_array_def np_add_def np_broadcast2_def
      np_setcols_def)

text \<open>
  Claim C1. The claim reads: after an episode of \<open>T \<ge> 2\<close> \<^verbatim>\<open>sample\<close> calls and
  \<^verbatim>\<open>accumulate\<close>, the buffer pairs each retained state \<open>s\<^sub>t\<close> with the Q-vector predicted
  at step \<open>t\<close> in which the entry of the action \<open>a\<^sub>t\<close> is replaced by
  \<open>reward\<^sub>t\<^sub>+\<^sub>1 + gamma * max Q\<^sub>t\<^sub>+\<^sub>1\<close>. Evaluated on the example agent (\<open>gamma = 0.5\<close>)
  for the episode of two steps with the states and Q-vectors \<open>s\<^sub>0 = Q\<^sub>0 = [2, 1]\<close> and
  \<open>s\<^sub>1 = Q\<^sub>1 = [3, 5]\<close>, the actions \<open>a\<^sub>0 = 0\<close> and \<open>a\<^sub>1 = 1\<close>, the step reward 10
  observed after \<open>a\<^sub>0\<close> and the terminal reward 100: the claim asks for the pair of
  \<open>s\<^sub>0\<close> and \<open>Q\<^sub>0\<close> with entry 0 set to \<open>10 + 0.5 * 5\<close>, that is \<open>[12.5, 1]\<close>. The source
  stores the pair of \<open>s\<^sub>0\<close> and \<open>[3, 102.5]\<close>: the vector is \<open>Q\<^sub>1\<close>, the entry written is
  that of \<open>a\<^sub>1\<close>, and the reward added is the terminal reward 100, as the step rewards
  are recorded in \<^verbatim>\<open>self.R\<close> and the method reads \<^verbatim>\<open>self.rewards\<close>.
\<close>

theorem DQN_accumulate_two_step_episode:
  "DQN_init echo_network [4, 6] 2 None [(''discount_factor'', 1 / 2)] = Inr example_DQN \<and>
   Q (foldl (DQN_perform echo_network) example_DQN example_episode) = [[2, 1], [3, 5]] \<and>
   A (foldl (DQN_perform echo_network) example_DQN example_episode) = [0, 1] \<and>
   R (foldl (DQN_perform echo_network) example_DQN example_episode) = [None, Some 10] \<and>
   DQN_targets (foldl (DQN_perform echo_network) example_DQN example_episode) 100
     = Inr ([[2, 1]], [[3, 205 / 2]]) \<and>
   memory (xp (DQN_perform echo_network
                 (foldl (DQN_perform echo_network) example_DQN example_episode)
                 (Accumulate [0] 100)))
     = [([2, 1], [3, 205 / 2])] \<and>
   [2, 1 :: real][0 := 10 + 1 / 2 * 5] = [25 / 2, 1]"
proof -
  let ?s = "foldl (DQN_perform echo_network) example_DQN example_episode"
  have s: "?s = example_DQN\<lparr>DQN.X := [[2, 1], [3, 5]], Q := [[2, 1], [3, 5]],
                  R := [None, Some 10], A := [0, 1]\<rparr>"
    by (rule example_episode_state)
  have t: "DQN_targets ?s 100 = Inr ([[2, 1]], [[3, 205 / 2]])"
    unfolding s by (rule example_targets)
  have m: "memory (xp (DQN_perform echo_network ?s (Accumulate [0] 100)))
             = [([2, 1], [3, 205 / 2])]"
    unfolding DQN_perform.simps xp_DQN_accumulate [OF t]
    unfolding s by (simp add: example_DQN_def remember_def Experience_init_def)
  show ?thesis
    unfolding t m by (simp add: s example_DQN_init)
qed

subsection \<open>HillClimbing: the end of an episode\<close>

lemma perturbed_weights_nth:
  fixes W :: vec
  shows "map2 (\<lambda>w n. w + n) W (map (\<lambda>n. n * c) (np_random_randn z (length W)))
         = map (\<lambda>i. W ! i + z i * c) [0..<length W]"
  by (intro nth_equalityI) (simp_all add: np_random_randn_def)

text \<open>
  Claim C7. On every call of \<^verbatim>\<open>HillClimbing.accumulate\<close>, with \<open>W\<close> the weights of the
  network on entry and \<open>z\<close> the standard normal draws: the network's weights are set to
  \<open>W\<close> plus 0.1 times the draws, one draw for each weight, whatever the episode's outcome;
  the shadow weights become \<open>W\<close> and the best reward becomes the cumulative reward of the
  episode if that reward is strictly greater than the best reward so far, and both stay
  as they are otherwise; the cumulative reward is reset to 0; the experience buffer, the
  configuration and the rest of the agent are as before.
\<close>

theorem HillClimbing_accumulate_effect:
  fixes self :: "('n, 'z) HillClimbing_scheme"
  shows "let W = get_weights M (net self);
             self' = HillClimbing_accumulate M z self reward
         in net self' = set_weights M (net self) (map (\<lambda>i. W ! i + z i * 0.1) [0..<length W]) \<and>
            shadow_net self' = (if rewards self > bestreward self then W else shadow_net self) \<and>
            bestreward self' =
              (if rewards self > bestreward self then rewards self else bestreward self) \<and>
            rewards self' = 0 \<and>
            xp self' = xp self \<and> cfg self' = cfg self \<and>
            HillClimbing.more self' = HillClimbing.more self"
proof -
  let ?W = "get_weights M (net self)"
  have noise: "map2 (\<lambda>w n. w + n) ?W (map (\<lambda>n. n * 0.1) (np_random_randn z (length ?W)))
               = map (\<lambda>i. ?W ! i + z i * 0.1) [0..<length ?W]"
    by (rule perturbed_weights_nth)
  show ?thesis
    unfolding HillClimbing_accumulate_def Let_def noise
    by (simp add: HillClimbing_reset_def)
qed

end
